theory Spec2Isabelle
  imports Complex_Main
begin

section \<open>Numbers\<close>

text \<open>
  The statistics of the city are JavaScript numbers. They are modelled as exact
  rationals: every finite double is a rational, and the engine only adds, multiplies,
  rounds and compares. The rounding error of intermediate products and the values
  NaN and Infinity are outside the model. Years are integers (the caller parses them
  with \<^verbatim>\<open>parseInt\<close>).
\<close>

type_synonym number = rat

definition Math_round :: "number \<Rightarrow> number" where
  \<comment> \<open>\<^verbatim>\<open>Math.round\<close>: the nearest integer, a tie going up.\<close>
  "Math_round x = of_int \<lfloor>x + 1 / 2\<rfloor>"

definition Math_max :: "number \<Rightarrow> number \<Rightarrow> number" where
  "Math_max a b = max a b"

definition Math_min :: "number \<Rightarrow> number \<Rightarrow> number" where
  "Math_min a b = min a b"

definition Math_pow :: "number \<Rightarrow> int \<Rightarrow> number" where
  \<comment> \<open>\<^verbatim>\<open>Math.pow\<close> at an integer exponent, which may be negative.\<close>
  "Math_pow x n = power_int x n"

definition js_or :: "number \<Rightarrow> number \<Rightarrow> number" where
  \<comment> \<open>\<^verbatim>\<open>a || b\<close> on numbers: the only falsy number of the model is 0.\<close>
  "js_or a b = (if a = 0 then b else a)"

definition deepClone :: "'a \<Rightarrow> 'a" where
  \<comment> \<open>\<^verbatim>\<open>JSON.parse(JSON.stringify(obj))\<close>: a value copy; values have no identity here.\<close>
  "deepClone obj = obj"

section \<open>Data model\<close>

text \<open>
  Modelled from the spec: the statistics record and the zone distribution are created
  by the city model (\<^verbatim>\<open>engine/CityModel.js\<close>), which is not among the sources. Their
  keys are the ones the specification lists in its data model, which are also the ones
  the simulator and the metrics read: nine numeric statistics, and a count of cells
  for each of the seven zone kinds, in the order of \<^verbatim>\<open>ZONE_TYPES\<close>.

  The eight metrics are shared by the statistics record of the city and by the object
  that \<^verbatim>\<open>applyScenario\<close> hands to a modifier; each of the two adds its own keys.
\<close>

record metrics =
  population :: number
  sustainabilityScore :: number
  carbonFootprint :: number
  energyEfficiency :: number
  greenCoverage :: number
  transitScore :: number
  walkability :: number
  airQuality :: number

record city_stats = metrics +
  energyConsumption :: number

record modifier_input = metrics +
  trafficDensity :: number
  energyDemand :: number

datatype zone = Empty | Residential | Commercial | Industrial | Green | Transit | Road

type_synonym zone_distribution = "zone \<Rightarrow> nat"

record city_model =
  stats :: city_stats
  distribution :: zone_distribution

section \<open>Constants: zone types and scenarios\<close>



record scenario =
  name :: string
  description :: string
  modifier :: "modifier_input \<Rightarrow> modifier_input"

definition population_growth :: scenario where
  "population_growth =
     \<lparr>name = ''Population +50%'',
      description = ''Simulate rapid population growth'',
      modifier = (\<lambda>city. city
        \<lparr>population := population city * (15 / 10),
         trafficDensity := trafficDensity city * (16 / 10),
         energyDemand := energyDemand city * (14 / 10)\<rparr>)\<rparr>"

definition add_transit :: scenario where
  "add_transit =
     \<lparr>name = ''Add Transit Line'',
      description = ''New metro line across city'',
      modifier = (\<lambda>city. city
        \<lparr>transitScore := transitScore city + 15,
         trafficDensity := trafficDensity city * (85 / 100),
         carbonFootprint := carbonFootprint city * (9 / 10)\<rparr>)\<rparr>"

definition green_expansion :: scenario where
  "green_expansion =
     \<lparr>name = ''Green Expansion'',
      description = ''Convert 10% industrial to parks'',
      modifier = (\<lambda>city. city
        \<lparr>greenCoverage := greenCoverage city + 10,
         airQuality := airQuality city + 12,
         sustainabilityScore := sustainabilityScore city + 8\<rparr>)\<rparr>"

definition renewable_energy :: scenario where
  "renewable_energy =
     \<lparr>name = ''100% Renewable'',
      description = ''Switch to renewable energy'',
      modifier = (\<lambda>city. city
        \<lparr>carbonFootprint := carbonFootprint city * (3 / 10),
         energyEfficiency := energyEfficiency city + 20,
         sustainabilityScore := sustainabilityScore city + 15\<rparr>)\<rparr>"

text \<open>
  \<^verbatim>\<open>SCENARIOS\<close> is an object literal, so \<^verbatim>\<open>SCENARIOS[scenarioId]\<close> finds the four own
  keys and, through the prototype chain, the members of \<^verbatim>\<open>Object.prototype\<close>; any
  other key gives \<^verbatim>\<open>undefined\<close>. An inherited member is a function (or, for
  \<^verbatim>\<open>__proto__\<close>, the prototype object): truthy, and without a \<^verbatim>\<open>modifier\<close>.
\<close>

definition SCENARIOS_own :: "string \<Rightarrow> scenario option" where
  "SCENARIOS_own k =
     (if k = ''population-growth'' then Some population_growth
      else if k = ''add-transit'' then Some add_transit
      else if k = ''green-expansion'' then Some green_expansion
      else if k = ''renewable-energy'' then Some renewable_energy
      else None)"

definition Object_prototype_keys :: "string list" where
  "Object_prototype_keys =
     [''constructor'', ''toString'', ''toLocaleString'', ''valueOf'', ''hasOwnProperty'',
      ''isPrototypeOf'', ''propertyIsEnumerable'', ''__proto__'', ''__defineGetter__'',
      ''__defineSetter__'', ''__lookupGetter__'', ''__lookupSetter__'']"

datatype 'a property = Own 'a | Inherited | Undefined

definition SCENARIOS :: "string \<Rightarrow> scenario property" where
  "SCENARIOS k =
     (case SCENARIOS_own k of
        Some sc \<Rightarrow> Own sc
      | None \<Rightarrow> if k \<in> set Object_prototype_keys then Inherited else Undefined)"

section \<open>The simulator\<close>

record applied_scenario =
  applied_id :: string
  applied_name :: string
  appliedAt :: int

record simulator =
  city :: city_model
  isRunning :: bool
  currentYear :: int
  baseYear :: int
  targetYear :: int
  speed :: number
  scenarios :: "applied_scenario list"
  baselineStats :: city_stats
  baselineDistribution :: zone_distribution

definition saveBaseline :: "simulator \<Rightarrow> simulator" where
  "saveBaseline s =
     s\<lparr>baselineStats := deepClone (stats (city s)),
       baselineDistribution := deepClone (distribution (city s))\<rparr>"

definition Simulator :: "city_model \<Rightarrow> simulator" where
  \<comment> \<open>The constructor. \<^verbatim>\<open>baselineStats\<close> starts as \<^verbatim>\<open>null\<close> and is set at once.\<close>
  "Simulator cityModel =
     saveBaseline
       \<lparr>city = cityModel, isRunning = False, currentYear = 2025, baseYear = 2025,
        targetYear = 2025, speed = 1, scenarios = [],
        baselineStats = stats cityModel, baselineDistribution = distribution cityModel\<rparr>"

definition reset :: "simulator \<Rightarrow> simulator" where
  "reset s =
     s\<lparr>currentYear := baseYear s,
       city := (city s)\<lparr>stats := deepClone (baselineStats s),
                        distribution := deepClone (baselineDistribution s)\<rparr>,
       scenarios := [],
       isRunning := False\<rparr>"

datatype js_error = TypeError

record apply_result =
  before :: city_stats
  after :: city_stats
  scenario :: scenario

definition clamp100 :: "number \<Rightarrow> number" where
  \<comment> \<open>\<^verbatim>\<open>Math.min(100, Math.max(0, x))\<close>\<close>
  "clamp100 x = Math_min 100 (Math_max 0 x)"

definition modifierInput :: "city_stats \<Rightarrow> modifier_input" where
  \<comment> \<open>The object literal passed to the modifier.\<close>
  "modifierInput st =
     \<lparr>population = population st,
      sustainabilityScore = sustainabilityScore st,
      carbonFootprint = carbonFootprint st,
      energyEfficiency = energyEfficiency st,
      greenCoverage = greenCoverage st,
      transitScore = transitScore st,
      walkability = walkability st,
      airQuality = airQuality st,
      trafficDensity = 50,
      energyDemand = energyConsumption st\<rparr>"

definition writeBack :: "modifier_input \<Rightarrow> city_stats \<Rightarrow> city_stats" where
  \<comment> \<open>The \<^verbatim>\<open>Object.assign\<close> of \<^verbatim>\<open>applyScenario\<close>: seven keys, each read from the
      modifier's result, or from the current statistics when that is falsy.\<close>
  "writeBack modifiedStats st =
     st\<lparr>population := Math_round (js_or (population modifiedStats) (population st)),
        sustainabilityScore :=
          Math_round (clamp100 (js_or (sustainabilityScore modifiedStats) (sustainabilityScore st))),
        carbonFootprint :=
          Math_round (js_or (carbonFootprint modifiedStats) (carbonFootprint st)),
        energyEfficiency :=
          Math_round (clamp100 (js_or (energyEfficiency modifiedStats) (energyEfficiency st))),
        transitScore :=
          Math_round (clamp100 (js_or (transitScore modifiedStats) (transitScore st))),
        walkability :=
          Math_round (clamp100 (js_or (walkability modifiedStats) (walkability st))),
        airQuality :=
          Math_round (clamp100 (js_or (airQuality modifiedStats) (airQuality st)))\<rparr>"

definition applyScenario ::
  "string \<Rightarrow> simulator \<Rightarrow> (js_error + apply_result option) \<times> simulator" where
  \<comment> \<open>The result is the returned value (\<open>None\<close> for \<^verbatim>\<open>null\<close>) or the exception thrown,
      with the engine state left behind. Calling the missing \<^verbatim>\<open>modifier\<close> of an
      inherited member throws before anything is written.\<close>
  "applyScenario scenarioId s =
     (case SCENARIOS scenarioId of
        Undefined \<Rightarrow> (Inr None, s)
      | Inherited \<Rightarrow> (Inl TypeError, s)
      | Own sc \<Rightarrow>
          let beforeStats = deepClone (stats (city s));
              modifiedStats = modifier sc (modifierInput (stats (city s)));
              st' = writeBack modifiedStats (stats (city s));
              s' = s\<lparr>city := (city s)\<lparr>stats := st'\<rparr>,
                     scenarios := scenarios s @
                       [\<lparr>applied_id = scenarioId, applied_name = name sc,
                         appliedAt = currentYear s\<rparr>]\<rparr>
          in (Inr (Some \<lparr>before = beforeStats, after = deepClone st', scenario = sc\<rparr>), s'))"

definition setTargetYear :: "int \<Rightarrow> simulator \<Rightarrow> simulator" where
  "setTargetYear year s = s\<lparr>targetYear := year\<rparr>"

definition stop :: "simulator \<Rightarrow> simulator" where
  "stop s = s\<lparr>isRunning := False\<rparr>"

subsection \<open>Time stepping\<close>

definition applyYearlyChanges :: "simulator \<Rightarrow> simulator" where
  "applyYearlyChanges s =
     (let yearsSinceBase = currentYear s - baseYear s;
          growthRate = 15 / 1000;
          degradationRate = 5 / 1000
      in s\<lparr>city := (city s)\<lparr>stats := (stats (city s))
           \<lparr>population :=
              Math_round (population (baselineStats s) * Math_pow (1 + growthRate) yearsSinceBase),
            airQuality :=
              Math_max 30 (Math_round (airQuality (baselineStats s) *
                (1 - degradationRate * of_int yearsSinceBase * (5 / 10)))),
            walkability :=
              Math_max 20 (Math_round (walkability (baselineStats s) *
                (1 - degradationRate * of_int yearsSinceBase * (3 / 10)))),
            carbonFootprint :=
              Math_round (carbonFootprint (baselineStats s) + of_int yearsSinceBase * (5 / 10))\<rparr>\<rparr>\<rparr>)"

definition Object_assign_stats :: "city_stats \<Rightarrow> city_stats \<Rightarrow> city_stats" where
  \<comment> \<open>\<^verbatim>\<open>Object.assign(target, source)\<close> on two statistics records: every key of the
      source is copied.\<close>
  "Object_assign_stats target source =
     target\<lparr>population := population source,
            sustainabilityScore := sustainabilityScore source,
            carbonFootprint := carbonFootprint source,
            energyEfficiency := energyEfficiency source,
            greenCoverage := greenCoverage source,
            transitScore := transitScore source,
            walkability := walkability source,
            airQuality := airQuality source,
            energyConsumption := energyConsumption source\<rparr>"

definition revertYearlyChanges :: "simulator \<Rightarrow> simulator" where
  "revertYearlyChanges s =
     (let yearsSinceBase = currentYear s - baseYear s
      in if yearsSinceBase \<le> 0
         then s\<lparr>city := (city s)
                 \<lparr>stats := Object_assign_stats (stats (city s)) (deepClone (baselineStats s))\<rparr>\<rparr>
         else applyYearlyChanges s)"

text \<open>
  \<^verbatim>\<open>simulateTo\<close> suspends after every simulated year. While it sleeps the caller may
  call \<^verbatim>\<open>stop\<close>; the list \<open>env\<close> says, sleep by sleep, whether it does (no call once
  the list is used up). Other calls into the engine during a sleep are not modelled.
  The calls of \<^verbatim>\<open>onUpdate\<close> are collected in a list; \<open>onUpdate\<close> tells whether a
  callback was passed at all.
\<close>

type_synonym update_log = "(int \<times> city_stats) list"

definition sleep :: "bool list \<Rightarrow> simulator \<Rightarrow> simulator" where
  "sleep env s = (case env of [] \<Rightarrow> s | stopRequested # _ \<Rightarrow> if stopRequested then stop s else s)"

partial_function (option) simulate_loop ::
  "int \<Rightarrow> int \<Rightarrow> bool \<Rightarrow> bool list \<Rightarrow> simulator \<Rightarrow> update_log \<Rightarrow> (simulator \<times> update_log) option"
where
  "simulate_loop direction target onUpdate env s updates =
     (if currentYear s \<noteq> target \<and> isRunning s then
        let s1 = s\<lparr>currentYear := currentYear s + direction\<rparr>;
            s2 = (if direction > 0 then applyYearlyChanges s1 else revertYearlyChanges s1);
            updates2 = (if onUpdate then updates @ [(currentYear s2, deepClone (stats (city s2)))] else updates)
        in simulate_loop direction target onUpdate (tl env) (sleep env s2) updates2
      else Some (s, updates))"

declare simulate_loop.simps [code]

definition simulateTo ::
  "int \<Rightarrow> bool \<Rightarrow> bool list \<Rightarrow> simulator \<Rightarrow> (simulator \<times> update_log) option" where
  \<comment> \<open>\<open>None\<close> stands for a run that never returns.\<close>
  "simulateTo target onUpdate env s =
     (if isRunning s then Some (s, [])
      else
        let direction = (if target > currentYear s then 1 else - 1)
        in map_option (\<lambda>(s', updates). (s'\<lparr>isRunning := False\<rparr>, updates))
             (simulate_loop direction target onUpdate env (s\<lparr>isRunning := True\<rparr>) []))"

section \<open>Metrics\<close>








section \<open>Auxiliary notions for the proofs\<close>

definition stepYear :: "int \<Rightarrow> simulator \<Rightarrow> simulator" where
  \<comment> \<open>One pass through the body of the loop of \<^verbatim>\<open>simulateTo\<close>, up to the callback.\<close>
  "stepYear direction s =
     (let s1 = s\<lparr>currentYear := currentYear s + direction\<rparr>
      in if direction > 0 then applyYearlyChanges s1 else revertYearlyChanges s1)"

definition direction_to :: "int \<Rightarrow> simulator \<Rightarrow> int" where
  \<comment> \<open>The direction that \<^verbatim>\<open>simulateTo\<close> computes once, before its loop.\<close>
  "direction_to target s = (if target > currentYear s then 1 else - 1)"


definition bounded_metric :: "number \<Rightarrow> bool" where
  "bounded_metric x \<longleftrightarrow> x \<in> \<int> \<and> 0 \<le> x \<and> x \<le> 100"

definition stats_invariant :: "city_stats \<Rightarrow> bool" where
  \<comment> \<open>The invariant of the data model: integers, the six bounded metrics in [0,100].\<close>
  "stats_invariant st \<longleftrightarrow>
     population st \<in> \<int> \<and> carbonFootprint st \<in> \<int> \<and> energyConsumption st \<in> \<int> \<and>
     bounded_metric (sustainabilityScore st) \<and> bounded_metric (energyEfficiency st) \<and>
     bounded_metric (greenCoverage st) \<and> bounded_metric (transitScore st) \<and>
     bounded_metric (walkability st) \<and> bounded_metric (airQuality st)"

definition yearly_population :: "city_stats \<Rightarrow> int \<Rightarrow> number" where
  "yearly_population b elapsed = Math_round (population b * Math_pow (1 + 15 / 1000) elapsed)"

definition yearly_airQuality :: "city_stats \<Rightarrow> int \<Rightarrow> number" where
  "yearly_airQuality b elapsed =
     Math_max 30 (Math_round (airQuality b * (1 - 5 / 1000 * of_int elapsed * (5 / 10))))"

definition yearly_walkability :: "city_stats \<Rightarrow> int \<Rightarrow> number" where
  "yearly_walkability b elapsed =
     Math_max 20 (Math_round (walkability b * (1 - 5 / 1000 * of_int elapsed * (3 / 10))))"

definition yearly_carbonFootprint :: "city_stats \<Rightarrow> int \<Rightarrow> number" where
  "yearly_carbonFootprint b elapsed = Math_round (carbonFootprint b + of_int elapsed * (5 / 10))"

section \<open>Example cities\<close>

definition example_stats :: city_stats where
  "example_stats =
     \<lparr>population = 500000, sustainabilityScore = 72, carbonFootprint = 10,
      energyEfficiency = 68, greenCoverage = 24, transitScore = 50, walkability = 70,
      airQuality = 75, energyConsumption = 1000\<rparr>"

fun example_distribution :: zone_distribution where
  "example_distribution Empty = 0"
| "example_distribution Residential = 40"
| "example_distribution Commercial = 10"
| "example_distribution Industrial = 5"
| "example_distribution Green = 20"
| "example_distribution Transit = 5"
| "example_distribution Road = 20"

definition example_city :: city_model where
  "example_city = \<lparr>stats = example_stats, distribution = example_distribution\<rparr>"

definition clean_city :: city_model where
  \<comment> \<open>A city whose air quality and walkability are at the top of their range.\<close>
  "clean_city =
     \<lparr>stats = example_stats\<lparr>walkability := 100, airQuality := 100\<rparr>,
      distribution = example_distribution\<rparr>"

definition then_simulateTo ::
  "(simulator \<times> update_log) option \<Rightarrow> int \<Rightarrow> (simulator \<times> update_log) option" where
  \<comment> \<open>A further run, started when the previous one has returned, without a callback
      and without any call of \<^verbatim>\<open>stop\<close>.\<close>
  "then_simulateTo r target =
     (case r of None \<Rightarrow> None | Some (s, _) \<Rightarrow> simulateTo target False [] s)"

definition then_applyScenario ::
  "(simulator \<times> update_log) option \<Rightarrow> string \<Rightarrow> (simulator \<times> update_log) option" where
  "then_applyScenario r scenarioId =
     (case r of None \<Rightarrow> None | Some (s, _) \<Rightarrow> Some (snd (applyScenario scenarioId s), []))"

definition final_stats :: "(simulator \<times> update_log) option \<Rightarrow> city_stats option" where
  "final_stats r = map_option (\<lambda>(s, _). stats (city s)) r"

section \<open>Evaluation and frame lemmas\<close>

lemmas js_defs = Math_round_def Math_max_def Math_min_def Math_pow_def js_or_def deepClone_def clamp100_def

subsection \<open>Frame lemmas\<close>

lemma applyYearlyChanges_frame [simp]:
  "isRunning (applyYearlyChanges s) = isRunning s"
  "currentYear (applyYearlyChanges s) = currentYear s"
  "baseYear (applyYearlyChanges s) = baseYear s"
  "targetYear (applyYearlyChanges s) = targetYear s"
  "speed (applyYearlyChanges s) = speed s"
  "scenarios (applyYearlyChanges s) = scenarios s"
  "baselineStats (applyYearlyChanges s) = baselineStats s"
  "baselineDistribution (applyYearlyChanges s) = baselineDistribution s"
  "distribution (city (applyYearlyChanges s)) = distribution (city s)"
  by (simp_all add: applyYearlyChanges_def Let_def)

lemma applyYearlyChanges_untouched [simp]:
  "sustainabilityScore (stats (city (applyYearlyChanges s))) = sustainabilityScore (stats (city s))"
  "energyEfficiency (stats (city (applyYearlyChanges s))) = energyEfficiency (stats (city s))"
  "greenCoverage (stats (city (applyYearlyChanges s))) = greenCoverage (stats (city s))"
  "transitScore (stats (city (applyYearlyChanges s))) = transitScore (stats (city s))"
  "energyConsumption (stats (city (applyYearlyChanges s))) = energyConsumption (stats (city s))"
  by (simp_all add: applyYearlyChanges_def Let_def)

lemma applyYearlyChanges_fields:
  "population (stats (city (applyYearlyChanges s))) =
     yearly_population (baselineStats s) (currentYear s - baseYear s)"
  "airQuality (stats (city (applyYearlyChanges s))) =
     yearly_airQuality (baselineStats s) (currentYear s - baseYear s)"
  "walkability (stats (city (applyYearlyChanges s))) =
     yearly_walkability (baselineStats s) (currentYear s - baseYear s)"
  "carbonFootprint (stats (city (applyYearlyChanges s))) =
     yearly_carbonFootprint (baselineStats s) (currentYear s - baseYear s)"
  by (simp_all add: applyYearlyChanges_def Let_def yearly_population_def yearly_airQuality_def
        yearly_walkability_def yearly_carbonFootprint_def)

lemma revertYearlyChanges_frame [simp]:
  "isRunning (revertYearlyChanges s) = isRunning s"
  "currentYear (revertYearlyChanges s) = currentYear s"
  "baseYear (revertYearlyChanges s) = baseYear s"
  "targetYear (revertYearlyChanges s) = targetYear s"
  "speed (revertYearlyChanges s) = speed s"
  "scenarios (revertYearlyChanges s) = scenarios s"
  "baselineStats (revertYearlyChanges s) = baselineStats s"
  "baselineDistribution (revertYearlyChanges s) = baselineDistribution s"
  "distribution (city (revertYearlyChanges s)) = distribution (city s)"
  by (simp_all add: revertYearlyChanges_def Let_def)

lemma Object_assign_stats_source: "Object_assign_stats target source = source"
  by (simp add: Object_assign_stats_def)

lemma revertYearlyChanges_after_base:
  "baseYear s < currentYear s \<Longrightarrow> revertYearlyChanges s = applyYearlyChanges s"
  by (simp add: revertYearlyChanges_def Let_def)

lemma revertYearlyChanges_restores:
  "currentYear s \<le> baseYear s \<Longrightarrow> stats (city (revertYearlyChanges s)) = baselineStats s"
  by (simp add: revertYearlyChanges_def Let_def Object_assign_stats_source deepClone_def)

lemma sleep_frame [simp]:
  "city (sleep env s) = city s"
  "currentYear (sleep env s) = currentYear s"
  "baseYear (sleep env s) = baseYear s"
  "targetYear (sleep env s) = targetYear s"
  "speed (sleep env s) = speed s"
  "scenarios (sleep env s) = scenarios s"
  "baselineStats (sleep env s) = baselineStats s"
  "baselineDistribution (sleep env s) = baselineDistribution s"
  by (simp_all add: sleep_def stop_def split: list.splits)

lemma stepYear_frame [simp]:
  "isRunning (stepYear d s) = isRunning s"
  "currentYear (stepYear d s) = currentYear s + d"
  "baseYear (stepYear d s) = baseYear s"
  "targetYear (stepYear d s) = targetYear s"
  "speed (stepYear d s) = speed s"
  "scenarios (stepYear d s) = scenarios s"
  "baselineStats (stepYear d s) = baselineStats s"
  "baselineDistribution (stepYear d s) = baselineDistribution s"
  "distribution (city (stepYear d s)) = distribution (city s)"
  by (simp_all add: stepYear_def Let_def)

subsection \<open>The loop\<close>

lemma simulate_loop_step:
  "currentYear s \<noteq> target \<Longrightarrow> isRunning s \<Longrightarrow>
   simulate_loop direction target onUpdate env s updates =
     simulate_loop direction target onUpdate (tl env) (sleep env (stepYear direction s))
       (if onUpdate
        then updates @ [(currentYear s + direction, stats (city (stepYear direction s)))]
        else updates)"
  by (subst simulate_loop.simps) (simp add: stepYear_def Let_def deepClone_def)

lemma simulate_loop_done:
  "currentYear s = target \<or> \<not> isRunning s \<Longrightarrow>
   simulate_loop direction target onUpdate env s updates = Some (s, updates)"
  by (subst simulate_loop.simps) auto

lemma simulate_loop_rule:
  assumes dir: "d = 1 \<and> currentYear s \<le> t \<or> d = - 1 \<and> t \<le> currentYear s"
    and init: "I s u env"
    and step: "\<And>s u env. I s u env \<Longrightarrow> isRunning s \<Longrightarrow>
                 (d = 1 \<and> currentYear s < t \<or> d = - 1 \<and> t < currentYear s) \<Longrightarrow>
                 I (sleep env (stepYear d s))
                   (if cb then u @ [(currentYear s + d, stats (city (stepYear d s)))] else u)
                   (tl env)"
  shows "\<exists>s' u' env'. simulate_loop d t cb env s u = Some (s', u') \<and> I s' u' env' \<and>
            (currentYear s' = t \<or> \<not> isRunning s')"
  using dir init
proof (induction "nat \<bar>t - currentYear s\<bar>" arbitrary: s u env rule: less_induct)
  case less
  show ?case
  proof (cases "currentYear s \<noteq> t \<and> isRunning s")
    case False
    then show ?thesis
      using less.prems(2) by (auto simp: simulate_loop_done)
  next
    case True
    then have strict: "d = 1 \<and> currentYear s < t \<or> d = - 1 \<and> t < currentYear s"
      using less.prems(1) by auto
    let ?s = "sleep env (stepYear d s)"
    let ?u = "if cb then u @ [(currentYear s + d, stats (city (stepYear d s)))] else u"
    have I': "I ?s ?u (tl env)"
      using step [OF less.prems(2) _ strict] True by simp
    have smaller: "nat \<bar>t - currentYear ?s\<bar> < nat \<bar>t - currentYear s\<bar>"
      using strict by auto
    have dir': "d = 1 \<and> currentYear ?s \<le> t \<or> d = - 1 \<and> t \<le> currentYear ?s"
      using strict by auto
    from less.hyps [OF smaller dir' I']
    show ?thesis
      using True by (simp add: simulate_loop_step)
  qed
qed

lemma simulateTo_rule:
  assumes idle: "\<not> isRunning s"
    and init: "I (s\<lparr>isRunning := True\<rparr>) [] env"
    and step: "\<And>s' u env. I s' u env \<Longrightarrow> isRunning s' \<Longrightarrow>
                 (currentYear s < t \<and> currentYear s' < t \<or>
                  t \<le> currentYear s \<and> t < currentYear s') \<Longrightarrow>
                 I (sleep env (stepYear (direction_to t s) s'))
                   (if cb then u @ [(currentYear s' + direction_to t s,
                                      stats (city (stepYear (direction_to t s) s')))] else u)
                   (tl env)"
  shows "\<exists>s' u' env'. simulateTo t cb env s = Some (s'\<lparr>isRunning := False\<rparr>, u') \<and>
            I s' u' env' \<and> (currentYear s' = t \<or> \<not> isRunning s')"
proof -
  let ?d = "direction_to t s"
  let ?s = "s\<lparr>isRunning := True\<rparr>"
  have dir: "?d = 1 \<and> currentYear ?s \<le> t \<or> ?d = - 1 \<and> t \<le> currentYear ?s"
    by (simp add: direction_to_def)
  have "\<exists>s' u' env'. simulate_loop ?d t cb env ?s [] = Some (s', u') \<and> I s' u' env' \<and>
            (currentYear s' = t \<or> \<not> isRunning s')"
  proof (rule simulate_loop_rule [where I = I, OF dir init])
    fix s' u env
    assume "I s' u env" "isRunning s'"
      and "?d = 1 \<and> currentYear s' < t \<or> ?d = - 1 \<and> t < currentYear s'"
    then show "I (sleep env (stepYear ?d s'))
                 (if cb then u @ [(currentYear s' + ?d, stats (city (stepYear ?d s')))] else u)
                 (tl env)"
      using step [of s' u env] by (auto simp: direction_to_def split: if_splits)
  qed
  then obtain s' u' env' where
    run: "simulate_loop ?d t cb env ?s [] = Some (s', u')" and
    inv: "I s' u' env'" and fin: "currentYear s' = t \<or> \<not> isRunning s'"
    by blast
  have "simulateTo t cb env s = Some (s'\<lparr>isRunning := False\<rparr>, u')"
    using idle run by (simp add: simulateTo_def direction_to_def Let_def)
  with inv fin show ?thesis by blast
qed

lemma simulateTo_running: "isRunning s \<Longrightarrow> simulateTo t cb env s = Some (s, [])"
  by (simp add: simulateTo_def)


lemma stepYear_fields:
  assumes "0 < d \<or> baseYear s < currentYear s + d"
  shows "population (stats (city (stepYear d s))) =
           yearly_population (baselineStats s) (currentYear s + d - baseYear s)"
    and "airQuality (stats (city (stepYear d s))) =
           yearly_airQuality (baselineStats s) (currentYear s + d - baseYear s)"
    and "walkability (stats (city (stepYear d s))) =
           yearly_walkability (baselineStats s) (currentYear s + d - baseYear s)"
    and "carbonFootprint (stats (city (stepYear d s))) =
           yearly_carbonFootprint (baselineStats s) (currentYear s + d - baseYear s)"
  using assms
  by (auto simp: stepYear_def Let_def revertYearlyChanges_after_base applyYearlyChanges_fields)

lemma stepYear_restores:
  "d \<le> 0 \<Longrightarrow> currentYear s + d \<le> baseYear s \<Longrightarrow> stats (city (stepYear d s)) = baselineStats s"
  by (simp add: stepYear_def Let_def revertYearlyChanges_restores)

lemma isRunning_sleep: "isRunning (sleep env s) \<longleftrightarrow> isRunning s \<and> (env = [] \<or> \<not> hd env)"
  by (cases env) (auto simp: sleep_def stop_def)

lemmas run_defs = simulateTo_def then_simulateTo_def then_applyScenario_def final_stats_def
  simulate_loop_step simulate_loop_done sleep_def stepYear_def applyYearlyChanges_def
  revertYearlyChanges_def Object_assign_stats_def Simulator_def saveBaseline_def
  example_city_def example_stats_def clean_city_def Let_def

lemmas scenario_defs = applyScenario_def SCENARIOS_def SCENARIOS_own_def Object_prototype_keys_def
  population_growth_def add_transit_def green_expansion_def renewable_energy_def
  writeBack_def modifierInput_def

lemmas arith_defs = js_defs floor_eq_iff power_divide

section \<open>Re-entrancy and empty runs\<close>

text \<open>
  Claim C7. While a run is active (the running flag is set), a further call of
  \<^verbatim>\<open>simulateTo\<close> returns at once: the whole engine state, with the current year and
  the statistics, is what it was, and \<^verbatim>\<open>onUpdate\<close> is not called.
\<close>

theorem simulateTo_reentrant_noop:
  "isRunning s \<Longrightarrow> simulateTo target onUpdate env s = Some (s, [])"
  by (simp add: simulateTo_def)

text \<open>
  Claim C7 on the example city with a run marked active: the call for 2030 with a
  callback returns the same state and an empty list of callback calls.
\<close>

theorem simulateTo_reentrant_noop_witness:
  "isRunning ((Simulator example_city)\<lparr>isRunning := True\<rparr>) \<and>
   simulateTo 2030 True [] ((Simulator example_city)\<lparr>isRunning := True\<rparr>) =
     Some ((Simulator example_city)\<lparr>isRunning := True\<rparr>, [])"
  using simulateTo_reentrant_noop [of "(Simulator example_city)\<lparr>isRunning := True\<rparr>" 2030 True "[]"]
  by simp

text \<open>
  Claim C10, refuted as it is stated for every engine state: when a run is already
  active, a call whose target is the current year returns at the guard and the running
  flag is still set afterwards.
\<close>

theorem same_year_call_while_running:
  "currentYear ((Simulator clean_city)\<lparr>isRunning := True\<rparr>) = 2025 \<and>
   map_option (\<lambda>(s', updates). isRunning s')
     (simulateTo 2025 True [] ((Simulator clean_city)\<lparr>isRunning := True\<rparr>)) = Some True"
  by (simp add: simulateTo_def Simulator_def saveBaseline_def)

text \<open>
  Claim C10, amended. For every engine state, \<^verbatim>\<open>simulateTo\<close> with the current year as
  target performs no iteration: the whole engine state (statistics, current year,
  running flag) is what it was before the call and \<^verbatim>\<open>onUpdate\<close> is never called. So
  the running flag is false afterwards exactly when no run was active at the call.
\<close>

theorem simulateTo_same_year: "simulateTo (currentYear s) onUpdate env s = Some (s, [])"
  by (cases "isRunning s") (simp_all add: simulateTo_def simulate_loop_done)

section \<open>The zone chart\<close>






section \<open>Applying a scenario\<close>

lemma applyScenario_undefined:
  "SCENARIOS scenarioId = Undefined \<Longrightarrow> applyScenario scenarioId s = (Inr None, s)"
  by (simp add: applyScenario_def)


lemma applyScenario_known:
  assumes "SCENARIOS_own scenarioId = Some sc"
  shows "applyScenario scenarioId s =
     (Inr (Some \<lparr>before = stats (city s),
                 after = writeBack (modifier sc (modifierInput (stats (city s)))) (stats (city s)),
                 scenario = sc\<rparr>),
      s\<lparr>city := (city s)\<lparr>stats :=
           writeBack (modifier sc (modifierInput (stats (city s)))) (stats (city s))\<rparr>,
        scenarios := scenarios s @
          [\<lparr>applied_id = scenarioId, applied_name = name sc, appliedAt = currentYear s\<rparr>]\<rparr>)"
  using assms by (simp add: applyScenario_def SCENARIOS_def Let_def deepClone_def)

text \<open>
  Claim C6, evaluated at the key \<^verbatim>\<open>constructor\<close>. The key is not a scenario of the
  catalog, yet the lookup finds the inherited member of \<^verbatim>\<open>Object.prototype\<close>, the guard
  does not return \<^verbatim>\<open>null\<close>, and the call of the missing \<^verbatim>\<open>modifier\<close> throws a
  \<^verbatim>\<open>TypeError\<close>. The engine state is untouched. (For a key that the lookup does not
  find at all, \<open>applyScenario_undefined\<close> gives the inert \<^verbatim>\<open>null\<close> result.)
\<close>

theorem applyScenario_inherited_key_throws:
  "SCENARIOS_own ''constructor'' = None \<and>
   applyScenario ''constructor'' (Simulator example_city) = (Inl TypeError, Simulator example_city)"
  by (simp add: applyScenario_def SCENARIOS_def SCENARIOS_own_def Object_prototype_keys_def)

text \<open>
  Claim C1, refuted as it is stated: applying \<^verbatim>\<open>add-transit\<close> to a city whose carbon
  footprint is 10 stores the 9 that the modifier computed.
\<close>

theorem applyScenario_persists_carbonFootprint:
  "carbonFootprint (stats (city (Simulator example_city))) = 10 \<and>
   carbonFootprint (stats (city (snd (applyScenario ''add-transit'' (Simulator example_city))))) = 9"
  by (simp add: scenario_defs run_defs arith_defs)

text \<open>
  Claim C1, amended. For every scenario of the catalog \<^verbatim>\<open>applyScenario\<close> writes seven
  fields back: population, sustainabilityScore, carbonFootprint, energyEfficiency,
  transitScore, walkability and airQuality, each from the modifier's result (or from
  the stored value when that result is falsy), rounded, the five scores clamped first.
  The fields greenCoverage and energyConsumption and the zone distribution keep the
  values they had before the call.
\<close>

theorem applyScenario_writes_seven_fields:
  assumes "SCENARIOS_own scenarioId = Some sc"
  shows "let st = stats (city s);
             m = modifier sc (modifierInput st);
             st' = stats (city (snd (applyScenario scenarioId s)))
         in population st' = Math_round (js_or (population m) (population st)) \<and>
            sustainabilityScore st' =
              Math_round (clamp100 (js_or (sustainabilityScore m) (sustainabilityScore st))) \<and>
            carbonFootprint st' = Math_round (js_or (carbonFootprint m) (carbonFootprint st)) \<and>
            energyEfficiency st' =
              Math_round (clamp100 (js_or (energyEfficiency m) (energyEfficiency st))) \<and>
            transitScore st' = Math_round (clamp100 (js_or (transitScore m) (transitScore st))) \<and>
            walkability st' = Math_round (clamp100 (js_or (walkability m) (walkability st))) \<and>
            airQuality st' = Math_round (clamp100 (js_or (airQuality m) (airQuality st))) \<and>
            greenCoverage st' = greenCoverage st \<and>
            energyConsumption st' = energyConsumption st \<and>
            distribution (city (snd (applyScenario scenarioId s))) = distribution (city s)"
  by (simp add: applyScenario_known [OF assms] writeBack_def Let_def)

text \<open>
  Claim C1, amended, at \<^verbatim>\<open>add-transit\<close> on the example city: the transit score goes
  from 50 to 65, the carbon footprint from 10 to 9, the green coverage stays 24.
\<close>

theorem applyScenario_writes_seven_fields_witness:
  "SCENARIOS_own ''add-transit'' = Some add_transit \<and>
   transitScore (stats (city (snd (applyScenario ''add-transit'' (Simulator example_city))))) = 65 \<and>
   carbonFootprint (stats (city (snd (applyScenario ''add-transit'' (Simulator example_city))))) = 9 \<and>
   greenCoverage (stats (city (snd (applyScenario ''add-transit'' (Simulator example_city))))) = 24"
  using applyScenario_writes_seven_fields [of "''add-transit''" add_transit "Simulator example_city"]
  by (simp add: SCENARIOS_own_def add_transit_def modifierInput_def run_defs arith_defs)

section \<open>Rounding and the falsy fallback\<close>

lemma Math_round_Ints [simp]: "Math_round x \<in> \<int>"
  by (simp add: Math_round_def)

lemma Math_round_mono: "x \<le> y \<Longrightarrow> Math_round x \<le> Math_round y"
  by (simp add: Math_round_def floor_mono)

lemma Math_round_of_int [simp]: "Math_round (of_int n) = of_int n"
  by (simp add: Math_round_def floor_eq_iff)

lemma Math_round_numeral [simp]: "Math_round (numeral n) = numeral n"
  using Math_round_of_int [of "numeral n"] by simp

lemma Math_round_zero [simp]: "Math_round 0 = 0"
  using Math_round_of_int [of 0] by simp

lemma Math_round_bounds:
  "of_int a \<le> x \<Longrightarrow> x \<le> of_int b \<Longrightarrow> of_int a \<le> Math_round x \<and> Math_round x \<le> of_int b"
  using Math_round_mono [of "of_int a" x] Math_round_mono [of x "of_int b"] by simp

lemma bounded_metric_clamp [simp]: "bounded_metric (Math_round (clamp100 x))"
proof -
  have "of_int 0 \<le> clamp100 x" "clamp100 x \<le> of_int 100"
    by (simp_all add: clamp100_def Math_min_def Math_max_def)
  from Math_round_bounds [OF this] show ?thesis
    by (simp add: bounded_metric_def)
qed

lemma bounded_metric_floor:
  assumes "bounded_metric b" and "0 \<le> lo" "lo \<le> 100" "lo \<in> \<int>" and "f \<le> 1"
  shows "bounded_metric (Math_max lo (Math_round (b * f)))"
proof -
  have "b * f \<le> b"
    using assms(1,5) by (simp add: bounded_metric_def mult_left_le)
  then have "b * f \<le> 100"
    using assms(1) by (simp add: bounded_metric_def)
  from Math_round_mono [OF this] have "Math_round (b * f) \<le> 100" by simp
  moreover have "max lo (Math_round (b * f)) \<in> \<int>"
    using assms(4) by (simp add: max_def)
  ultimately show ?thesis
    using assms(2,3) by (simp add: bounded_metric_def Math_max_def)
qed

lemma clamp100_zero [simp]: "clamp100 0 = 0"
  by (simp add: clamp100_def Math_min_def Math_max_def)






section \<open>Time stepping\<close>

subsection \<open>The fields that a run leaves alone\<close>




lemma simulateTo_rewind_restores:
  assumes idle: "\<not> isRunning s" and rewind: "t < currentYear s" and reach: "t \<le> baseYear s"
    and nostop: "True \<notin> set env"
  shows "\<exists>s' u. simulateTo t cb env s = Some (s', u) \<and> currentYear s' = t \<and>
           stats (city s') = baselineStats s"
proof -
  define I where "I = (\<lambda>(s' :: simulator) (u :: update_log) (e :: bool list).
      baseYear s' = baseYear s \<and> baselineStats s' = baselineStats s \<and>
      currentYear s' \<le> currentYear s \<and> True \<notin> set e \<and> isRunning s' \<and>
      (currentYear s' \<noteq> currentYear s \<and> currentYear s' \<le> baseYear s \<longrightarrow>
         stats (city s') = baselineStats s))"
  have "\<exists>s' u' env'. simulateTo t cb env s = Some (s'\<lparr>isRunning := False\<rparr>, u') \<and>
            I s' u' env' \<and> (currentYear s' = t \<or> \<not> isRunning s')"
  proof (rule simulateTo_rule [where I = I, OF idle])
    show "I (s\<lparr>isRunning := True\<rparr>) [] env"
      using nostop by (simp add: I_def)
  next
    fix s' u e
    assume inv: "I s' u e" and run: "isRunning s'"
      and pos: "currentYear s < t \<and> currentYear s' < t \<or> t \<le> currentYear s \<and> t < currentYear s'"
    have d: "direction_to t s = - 1"
      using rewind by (simp add: direction_to_def)
    have tl: "True \<notin> set (tl e)" "e = [] \<or> \<not> hd e"
      using inv by (cases e; auto simp: I_def)+
    have restore: "currentYear s' - 1 \<le> baseYear s \<Longrightarrow>
                   stats (city (stepYear (- 1) s')) = baselineStats s"
      using inv stepYear_restores [of "- 1" s'] by (simp add: I_def)
    show "I (sleep e (stepYear (direction_to t s) s'))
            (if cb then u @ [(currentYear s' + direction_to t s,
                               stats (city (stepYear (direction_to t s) s')))] else u)
            (tl e)"
      unfolding d I_def
      using inv run tl restore by (auto simp: I_def isRunning_sleep)
  qed
  then obtain s' u' env' where
    res: "simulateTo t cb env s = Some (s'\<lparr>isRunning := False\<rparr>, u')" and
    inv: "I s' u' env'" and fin: "currentYear s' = t \<or> \<not> isRunning s'"
    by blast
  show ?thesis
    using res inv fin rewind reach by (auto simp: I_def)
qed

subsection \<open>The fields that a run recomputes\<close>

lemma simulateTo_yearly_fields:
  assumes idle: "\<not> isRunning s" and move: "currentYear s \<noteq> t"
    and side: "currentYear s < t \<or> baseYear s < t"
  shows "\<exists>s' u. simulateTo t cb env s = Some (s', u) \<and>
           baseYear s' = baseYear s \<and> baselineStats s' = baselineStats s \<and>
           currentYear s' \<noteq> currentYear s \<and>
           (currentYear s < t \<and> currentYear s < currentYear s' \<and> currentYear s' \<le> t \<or>
            t < currentYear s \<and> t \<le> currentYear s' \<and> currentYear s' < currentYear s) \<and>
           (True \<notin> set env \<longrightarrow> currentYear s' = t) \<and>
           population (stats (city s')) =
             yearly_population (baselineStats s) (currentYear s' - baseYear s) \<and>
           airQuality (stats (city s')) =
             yearly_airQuality (baselineStats s) (currentYear s' - baseYear s) \<and>
           walkability (stats (city s')) =
             yearly_walkability (baselineStats s) (currentYear s' - baseYear s) \<and>
           carbonFootprint (stats (city s')) =
             yearly_carbonFootprint (baselineStats s) (currentYear s' - baseYear s)"
proof -
  define I where "I = (\<lambda>(s' :: simulator) (u :: update_log) (e :: bool list).
      baseYear s' = baseYear s \<and> baselineStats s' = baselineStats s \<and>
      (currentYear s < t \<and> currentYear s \<le> currentYear s' \<and> currentYear s' \<le> t \<or>
       t < currentYear s \<and> currentYear s' \<le> currentYear s \<and> t \<le> currentYear s') \<and>
      (currentYear s' = currentYear s \<longrightarrow> isRunning s') \<and>
      (True \<notin> set env \<longrightarrow> True \<notin> set e \<and> isRunning s') \<and>
      (currentYear s' \<noteq> currentYear s \<longrightarrow>
         population (stats (city s')) =
           yearly_population (baselineStats s) (currentYear s' - baseYear s) \<and>
         airQuality (stats (city s')) =
           yearly_airQuality (baselineStats s) (currentYear s' - baseYear s) \<and>
         walkability (stats (city s')) =
           yearly_walkability (baselineStats s) (currentYear s' - baseYear s) \<and>
         carbonFootprint (stats (city s')) =
           yearly_carbonFootprint (baselineStats s) (currentYear s' - baseYear s)))"
  have "\<exists>s' u' env'. simulateTo t cb env s = Some (s'\<lparr>isRunning := False\<rparr>, u') \<and>
            I s' u' env' \<and> (currentYear s' = t \<or> \<not> isRunning s')"
  proof (rule simulateTo_rule [where I = I, OF idle])
    show "I (s\<lparr>isRunning := True\<rparr>) [] env"
      using move by (auto simp: I_def)
  next
    fix s' u e
    assume inv: "I s' u e" and run: "isRunning s'"
      and pos: "currentYear s < t \<and> currentYear s' < t \<or> t \<le> currentYear s \<and> t < currentYear s'"
    let ?d = "direction_to t s"
    have ok: "0 < ?d \<or> baseYear s' < currentYear s' + ?d"
      using pos side inv by (auto simp: direction_to_def I_def)
    have d: "currentYear s < t \<and> ?d = 1 \<or> t < currentYear s \<and> ?d = - 1"
      using pos move by (auto simp: direction_to_def)
    have tl: "True \<notin> set e \<Longrightarrow> True \<notin> set (tl e) \<and> (e = [] \<or> \<not> hd e)"
      by (cases e) auto
    show "I (sleep e (stepYear ?d s'))
            (if cb then u @ [(currentYear s' + ?d, stats (city (stepYear ?d s')))] else u)
            (tl e)"
      unfolding I_def
      using inv pos d run tl stepYear_fields [OF ok]
      by (auto simp: I_def isRunning_sleep)
  qed
  then obtain s' u' env' where
    res: "simulateTo t cb env s = Some (s'\<lparr>isRunning := False\<rparr>, u')" and
    inv: "I s' u' env'" and fin: "currentYear s' = t \<or> \<not> isRunning s'"
    by blast
  have moved: "currentYear s' \<noteq> currentYear s"
    using inv fin move by (auto simp: I_def)
  show ?thesis
    using res inv fin moved move by (auto simp: I_def)
qed







subsection \<open>Years before the base year\<close>

text \<open>
  For a target year after the base year the four recomputed fields do not depend on
  the path: two completed runs onto the same year from engines that share the base
  year and the baseline agree on them.
\<close>

lemma simulateTo_path_independent_after_base:
  assumes idle: "\<not> isRunning s1" "\<not> isRunning s2"
    and same: "baselineStats s1 = baselineStats s2" "baseYear s1 = baseYear s2"
    and after: "baseYear s1 < t"
    and move: "currentYear s1 \<noteq> t" "currentYear s2 \<noteq> t"
    and nostop: "True \<notin> set env1" "True \<notin> set env2"
  shows "\<exists>s1' u1 s2' u2.
           simulateTo t cb1 env1 s1 = Some (s1', u1) \<and>
           simulateTo t cb2 env2 s2 = Some (s2', u2) \<and>
           currentYear s1' = t \<and> currentYear s2' = t \<and>
           population (stats (city s1')) = population (stats (city s2')) \<and>
           airQuality (stats (city s1')) = airQuality (stats (city s2')) \<and>
           walkability (stats (city s1')) = walkability (stats (city s2')) \<and>
           carbonFootprint (stats (city s1')) = carbonFootprint (stats (city s2'))"
proof -
  have side1: "currentYear s1 < t \<or> baseYear s1 < t" and side2: "currentYear s2 < t \<or> baseYear s2 < t"
    using after same by auto
  from simulateTo_yearly_fields [OF idle(1) move(1) side1, of cb1 env1] nostop(1)
  obtain s1' u1 where r1: "simulateTo t cb1 env1 s1 = Some (s1', u1)" "currentYear s1' = t"
    "population (stats (city s1')) = yearly_population (baselineStats s1) (t - baseYear s1)"
    "airQuality (stats (city s1')) = yearly_airQuality (baselineStats s1) (t - baseYear s1)"
    "walkability (stats (city s1')) = yearly_walkability (baselineStats s1) (t - baseYear s1)"
    "carbonFootprint (stats (city s1')) = yearly_carbonFootprint (baselineStats s1) (t - baseYear s1)"
    by auto
  from simulateTo_yearly_fields [OF idle(2) move(2) side2, of cb2 env2] nostop(2)
  obtain s2' u2 where r2: "simulateTo t cb2 env2 s2 = Some (s2', u2)" "currentYear s2' = t"
    "population (stats (city s2')) = yearly_population (baselineStats s2) (t - baseYear s2)"
    "airQuality (stats (city s2')) = yearly_airQuality (baselineStats s2) (t - baseYear s2)"
    "walkability (stats (city s2')) = yearly_walkability (baselineStats s2) (t - baseYear s2)"
    "carbonFootprint (stats (city s2')) = yearly_carbonFootprint (baselineStats s2) (t - baseYear s2)"
    by auto
  show ?thesis
    using r1 r2 same by simp
qed

text \<open>
  Claim C4, evaluated before the base year. On the example city (base year 2025,
  baseline population 500000) the direct run to 2024 moves backward and restores the
  baseline, population 500000; the run to 2023 followed by the run to 2024 ends with a
  forward step, which applies the growth formula at -1 elapsed years: population
  492611. The backward path guards the years up to the base year, the forward path
  does not.
\<close>

theorem pre_baseline_path_dependence:
  "map_option population (final_stats (simulateTo 2024 False [] (Simulator example_city)))
     = Some 500000 \<and>
   map_option population (final_stats
     (then_simulateTo (simulateTo 2023 False [] (Simulator example_city)) 2024))
     = Some 492611"
  by (simp add: run_defs arith_defs)

text \<open>
  The range invariant of the statistics is kept by every scenario of the catalog, by
  every step that lands on the base year or later, by every backward step, and so by
  every run that does not move forward from a year before the base year.
\<close>

lemma applyScenario_stats_invariant:
  assumes "SCENARIOS_own scenarioId = Some sc" and "stats_invariant (stats (city s))"
  shows "stats_invariant (stats (city (snd (applyScenario scenarioId s))))"
  using assms(2)
  by (simp add: applyScenario_known [OF assms(1)] writeBack_def stats_invariant_def)

lemma applyYearlyChanges_stats_invariant:
  assumes "stats_invariant (baselineStats s)" and "stats_invariant (stats (city s))"
    and "baseYear s \<le> currentYear s"
  shows "stats_invariant (stats (city (applyYearlyChanges s)))"
proof -
  have e: "(0::rat) \<le> of_int (currentYear s - baseYear s)"
    using assms(3) by simp
  have f1: "1 - 5 / 1000 * of_int (currentYear s - baseYear s) * (5 / 10) \<le> (1::rat)"
    and f2: "1 - 5 / 1000 * of_int (currentYear s - baseYear s) * (3 / 10) \<le> (1::rat)"
    using e by simp_all
  have aq: "bounded_metric (airQuality (stats (city (applyYearlyChanges s))))"
    unfolding applyYearlyChanges_fields yearly_airQuality_def
    using assms(1) by (intro bounded_metric_floor f1) (simp_all add: stats_invariant_def)
  have wk: "bounded_metric (walkability (stats (city (applyYearlyChanges s))))"
    unfolding applyYearlyChanges_fields yearly_walkability_def
    using assms(1) by (intro bounded_metric_floor f2) (simp_all add: stats_invariant_def)
  have pop: "population (stats (city (applyYearlyChanges s))) \<in> \<int>"
    and cf: "carbonFootprint (stats (city (applyYearlyChanges s))) \<in> \<int>"
    by (simp_all add: applyYearlyChanges_fields yearly_population_def yearly_carbonFootprint_def)
  show ?thesis
    using assms(2) aq wk pop cf by (simp add: stats_invariant_def)
qed

lemma stepYear_stats_invariant:
  assumes "stats_invariant (baselineStats s)" and "stats_invariant (stats (city s))"
    and "d \<le> 0 \<or> baseYear s \<le> currentYear s + d"
  shows "stats_invariant (stats (city (stepYear d s)))"
proof (cases "baseYear s \<le> currentYear s + d")
  case True
  let ?s = "s\<lparr>currentYear := currentYear s + d\<rparr>"
  have a: "stats_invariant (stats (city (applyYearlyChanges ?s)))"
    using assms(1,2) True by (intro applyYearlyChanges_stats_invariant) simp_all
  have r: "stats_invariant (stats (city (revertYearlyChanges ?s)))"
  proof (cases "currentYear ?s \<le> baseYear ?s")
    case True
    then show ?thesis
      using assms(1) revertYearlyChanges_restores [of ?s] by simp
  next
    case False
    then show ?thesis
      using a by (simp add: revertYearlyChanges_after_base)
  qed
  show ?thesis
    using a r by (simp add: stepYear_def Let_def)
next
  case False
  then have "d \<le> 0" "currentYear s + d \<le> baseYear s"
    using assms(3) by auto
  then show ?thesis
    using assms(1) by (simp add: stepYear_restores)
qed

lemma simulateTo_stats_invariant:
  assumes "stats_invariant (baselineStats s)" and "stats_invariant (stats (city s))"
    and "baseYear s \<le> currentYear s \<or> t \<le> currentYear s"
  shows "\<exists>s' u. simulateTo t cb env s = Some (s', u) \<and> stats_invariant (stats (city s'))"
proof (cases "isRunning s")
  case True
  then show ?thesis using assms(2) by (simp add: simulateTo_running)
next
  case False
  define I where "I = (\<lambda>(s' :: simulator) (u :: update_log) (e :: bool list).
      baseYear s' = baseYear s \<and> baselineStats s' = baselineStats s \<and>
      stats_invariant (stats (city s')) \<and>
      (currentYear s < t \<longrightarrow> currentYear s \<le> currentYear s'))"
  have "\<exists>s' u' env'. simulateTo t cb env s = Some (s'\<lparr>isRunning := False\<rparr>, u') \<and>
            I s' u' env' \<and> (currentYear s' = t \<or> \<not> isRunning s')"
  proof (rule simulateTo_rule [where I = I, OF False])
    show "I (s\<lparr>isRunning := True\<rparr>) [] env"
      using assms(2) by (simp add: I_def)
  next
    fix s' u e
    assume inv: "I s' u e" and run: "isRunning s'"
      and pos: "currentYear s < t \<and> currentYear s' < t \<or> t \<le> currentYear s \<and> t < currentYear s'"
    let ?d = "direction_to t s"
    have ok: "?d \<le> 0 \<or> baseYear s' \<le> currentYear s' + ?d"
      using pos inv assms(3) by (auto simp: direction_to_def I_def)
    have "stats_invariant (stats (city (stepYear ?d s')))"
      using inv assms(1) by (intro stepYear_stats_invariant ok) (simp_all add: I_def)
    moreover have "currentYear s < t \<Longrightarrow> ?d = 1"
      by (simp add: direction_to_def)
    ultimately show "I (sleep e (stepYear ?d s'))
            (if cb then u @ [(currentYear s' + ?d, stats (city (stepYear ?d s')))] else u)
            (tl e)"
      using inv by (auto simp: I_def)
  qed
  then show ?thesis by (auto simp: I_def)
qed

text \<open>
  Claim C5, evaluated before the base year. The statistics of the city satisfy the
  range invariant, with air quality and walkability at 100. After the run back to 2020
  the single forward step to 2021 applies the degradation formulas at -4 elapsed
  years and stores air quality 101 and walkability 101.
\<close>

theorem pre_baseline_step_exceeds_range:
  "stats_invariant (stats clean_city) \<and>
   map_option airQuality (final_stats
     (then_simulateTo (simulateTo 2020 False [] (Simulator clean_city)) 2021)) = Some 101 \<and>
   map_option walkability (final_stats
     (then_simulateTo (simulateTo 2020 False [] (Simulator clean_city)) 2021)) = Some 101"
  by (simp add: run_defs arith_defs stats_invariant_def bounded_metric_def)

end
